theory Spec2Isabelle
  imports Complex_Main
begin

section \<open>The web Conference component (react/features/conference/components/web/Conference.js)\<close>

text \<open>
  The component maps the Redux state to props (\<open>_mapStateToProps\<close>), renders a tree of
  child components from those props (\<open>render\<close>) and adjusts the background of its root
  DOM element (\<open>_setBackground\<close>). An identifier cannot start with an underscore here,
  so \<open>_showLobby\<close> is \<open>showLobby\<close>, \<open>_mapStateToProps\<close> is \<open>mapStateToProps\<close>, and so on.
\<close>

subsection \<open>JavaScript values\<close>

text \<open>
  The values that occur in the props and in the JSX attributes of this file:
  \<open>undefined\<close>, booleans, strings, a method of the component (\<open>this._onMouseEnter\<close>, by
  name) and a member inherited from \<open>Object.prototype\<close> (by name).
\<close>

datatype js_value =
    JSUndefined
  | JSBool bool
  | JSString string
  | JSMethod string
  | JSProto string

text \<open>
  Reading \<open>obj[key]\<close> on an object literal never throws: it yields the own property, else
  the member of \<open>Object.prototype\<close> of that name, else \<open>undefined\<close>.
\<close>

definition Object_prototype_names :: "string list" where
  "Object_prototype_names =
     [''constructor'', ''hasOwnProperty'', ''isPrototypeOf'', ''propertyIsEnumerable'',
      ''toLocaleString'', ''toString'', ''valueOf'', ''__proto__'',
      ''__defineGetter__'', ''__defineSetter__'', ''__lookupGetter__'', ''__lookupSetter__'']"

definition get_property :: "(string \<rightharpoonup> string) \<Rightarrow> string \<Rightarrow> js_value" where
  "get_property obj key =
     (case obj key of
        Some v \<Rightarrow> JSString v
      | None \<Rightarrow> if key \<in> set Object_prototype_names then JSProto key else JSUndefined)"

subsection \<open>LAYOUT_CLASSNAMES\<close>

text \<open>
  \<open>LAYOUTS\<close> is imported from the video-layout feature; the file uses three of its
  members as computed keys. Their string values are a parameter: \<open>LAYOUTS\<close> maps each
  member name to its value. In an object literal a later entry overwrites an earlier one
  with the same key, as a later map update does.
\<close>

datatype layout_member = HORIZONTAL_FILMSTRIP_VIEW | TILE_VIEW | VERTICAL_FILMSTRIP_VIEW

definition LAYOUT_CLASSNAMES :: "(layout_member \<Rightarrow> string) \<Rightarrow> (string \<rightharpoonup> string)" where
  "LAYOUT_CLASSNAMES LAYOUTS =
     [LAYOUTS HORIZONTAL_FILMSTRIP_VIEW \<mapsto> ''horizontal-filmstrip'',
      LAYOUTS TILE_VIEW \<mapsto> ''tile-view'',
      LAYOUTS VERTICAL_FILMSTRIP_VIEW \<mapsto> ''vertical-filmstrip'']"

subsection \<open>Props and \<open>_mapStateToProps\<close>\<close>

text \<open>
  \<open>AbstractProps\<close> comes from AbstractConference; the two members this file reads are
  \<open>_notificationsVisible\<close> (in \<open>render\<close>) and \<open>_shouldDisplayTileView\<close> (in
  \<open>componentDidUpdate\<close>). Numbers are an opaque type \<open>'n\<close>: the file only passes them on.
\<close>

record AbstractProps =
  notificationsVisible :: bool
  shouldDisplayTileView :: bool

record 'n Props = AbstractProps +
  backgroundAlpha :: "'n option"
  layoutClassName :: js_value
  mouseMoveCallbackInterval :: 'n
  overflowDrawer :: bool
  roomName :: string
  showLobby :: bool
  showPrejoin :: bool
  showStageFilmstrip :: bool

text \<open>
  The Redux state, as far as \<open>_mapStateToProps\<close> reads it: two members of
  \<open>state['features/base/config']\<close>, one of \<open>state['features/toolbox']\<close>, and the value each
  imported selector returns on this state (the selectors themselves are in other files).
  \<open>getCurrentLayout\<close> is the value as a property key, that is, converted to a string.
\<close>

record 'n State =
  config_backgroundAlpha :: "'n option"
  config_mouseMoveCallbackInterval :: 'n
  toolbox_overflowDrawer :: bool
  abstractMapStateToProps :: AbstractProps
  getCurrentLayout :: string
  getConferenceNameForTitle :: string
  getIsLobbyVisible :: bool
  isPrejoinPageVisible :: bool
  shouldDisplayStageFilmstrip :: bool

datatype ErrorKind = UnknownLayout | InvalidColor

text \<open>
  \<open>_mapStateToProps\<close> has no \<open>throw\<close> and calls nothing of this file that throws, so it
  has no error branch: the result is always \<open>Inr\<close>.
\<close>

definition mapStateToProps :: "(layout_member \<Rightarrow> string) \<Rightarrow> 'n State \<Rightarrow> ErrorKind + 'n Props" where
  "mapStateToProps LAYOUTS state =
     Inr \<lparr> notificationsVisible = notificationsVisible (abstractMapStateToProps state),
           shouldDisplayTileView = shouldDisplayTileView (abstractMapStateToProps state),
           backgroundAlpha = config_backgroundAlpha state,
           layoutClassName = get_property (LAYOUT_CLASSNAMES LAYOUTS) (getCurrentLayout state),
           mouseMoveCallbackInterval = config_mouseMoveCallbackInterval state,
           overflowDrawer = toolbox_overflowDrawer state,
           roomName = getConferenceNameForTitle state,
           showLobby = getIsLobbyVisible state,
           showPrejoin = isPrejoinPageVisible state,
           showStageFilmstrip = shouldDisplayStageFilmstrip state \<rparr>"

subsection \<open>\<open>render\<close>\<close>

text \<open>
  \<open>clsx\<close> joins its truthy string arguments with a blank and ignores \<open>undefined\<close>,
  booleans, functions and the empty string.
\<close>

fun clsx :: "js_value list \<Rightarrow> string" where
  "clsx [] = []"
| "clsx (JSString s # vs) =
     (if s = [] then clsx vs else if clsx vs = [] then s else s @ '' '' @ clsx vs)"
| "clsx (v # vs) = clsx vs"

datatype tag =
    Div | Chat | ConferenceInfo | Notice | LargeVideo | StageFilmstrip | MainFilmstrip
  | Toolbox | JitsiPortal | CalleeInfoContainer | Prejoin | LobbyScreen | ParticipantsPane

text \<open>
  A JSX child is an element (tag, attributes, children), an expression that evaluated to
  a boolean, or what the inherited method \<open>renderNotificationsContainer\<close> returned for
  its argument (\<open>None\<close>: called without argument). That method is in AbstractConference,
  so its result stays a leaf named after the call.
\<close>

datatype node =
    Elem tag "(string \<times> js_value) list" "node list"
  | JSBoolean bool
  | renderNotificationsContainer "(string \<times> js_value) list option"

text \<open>\<open>a && x\<close> and \<open>a || x\<close> for a boolean \<open>a\<close>: the result is \<open>a\<close> itself or \<open>x\<close>.\<close>

definition js_and :: "bool \<Rightarrow> node \<Rightarrow> node" where
  "js_and a x = (if a then x else JSBoolean False)"

definition js_or :: "bool \<Rightarrow> node \<Rightarrow> node" where
  "js_or a x = (if a then JSBoolean True else x)"

text \<open>
  \<open>render\<close> reads six props and \<open>isMobileBrowser()\<close>, here the argument \<open>mobile\<close>.
\<close>

definition render :: "bool \<Rightarrow> 'n Props \<Rightarrow> node" where
  "render mobile props =
     Elem Div
       [(''id'', JSString ''layout_wrapper''),
        (''onMouseEnter'', JSMethod ''_onMouseEnter''),
        (''onMouseLeave'', JSMethod ''_onMouseLeave''),
        (''onMouseMove'', JSMethod ''_onMouseMove'')]
       [Elem Chat [] [],
        Elem Div
          [(''className'',
              JSString (clsx [layoutClassName props,
                 if showStageFilmstrip props then JSString ''stage-filmstrip''
                 else JSBool False])),
           (''id'', JSString ''videoconference_page''),
           (''onMouseMove'', if mobile then JSUndefined else JSMethod ''_onShowToolbar''),
           (''ref'', JSMethod ''_setBackground'')]
          [Elem ConferenceInfo [] [],
           Elem Notice [] [],
           Elem Div
             [(''id'', JSString ''videospace''),
              (''onTouchStart'', JSMethod ''_onVidespaceTouchStart'')]
             [Elem LargeVideo [] [],
              js_and (showStageFilmstrip props) (Elem StageFilmstrip [] []),
              Elem MainFilmstrip [] []],
           js_or (showPrejoin props) (js_or (showLobby props) (Elem Toolbox [] [])),
           js_and (notificationsVisible props)
             (if overflowDrawer props
              then Elem JitsiPortal [(''className'', JSString ''notification-portal'')]
                     [renderNotificationsContainer (Some [(''portal'', JSBool True)])]
              else renderNotificationsContainer None),
           Elem CalleeInfoContainer [] [],
           js_and (showPrejoin props) (Elem Prejoin [] []),
           js_and (showLobby props) (Elem LobbyScreen [] [])],
        Elem ParticipantsPane [] []]"

text \<open>
  What React puts on the page for a tree: every element and every result of the
  inherited method, in document order; a boolean child renders nothing.
  \<open>mounted\<close> lists the tags of the elements that \<open>render\<close> itself emits.
\<close>

fun rendered :: "node \<Rightarrow> node list" where
  "rendered (Elem t as cs) = Elem t as cs # concat (map rendered cs)"
| "rendered (JSBoolean b) = []"
| "rendered (renderNotificationsContainer a) = [renderNotificationsContainer a]"

fun mounted :: "node \<Rightarrow> tag list" where
  "mounted (Elem t as cs) = t # concat (map mounted cs)"
| "mounted (JSBoolean b) = []"
| "mounted (renderNotificationsContainer a) = []"

subsection \<open>\<open>_setBackground\<close>\<close>

text \<open>
  The DOM as a store: every address holds an element with its inline
  \<open>style.background\<close> and its \<open>parentElement\<close> (\<open>None\<close>: null). The style is a plain
  field: an assignment stores the value it is given. \<open>setColorAlpha\<close> is imported from
  base/util and is a parameter here; colours are whatever type it works on. The ref
  callback receives the element or null (\<open>None\<close>).
\<close>

type_synonym addr = nat

record 'c HTMLElement =
  style_background :: 'c
  parentElement :: "addr option"

definition setBackground ::
  "('c \<Rightarrow> 'n \<Rightarrow> 'c) \<Rightarrow> 'n Props \<Rightarrow> addr option \<Rightarrow> (addr \<Rightarrow> 'c HTMLElement)
     \<Rightarrow> (addr \<Rightarrow> 'c HTMLElement)" where
  "setBackground setColorAlpha props element document =
     (case element of
        None \<Rightarrow> document
      | Some e \<Rightarrow>
          (case backgroundAlpha props of
             None \<Rightarrow> document
           | Some alpha \<Rightarrow>
               let elemColor = style_background (document e);
                   alphaElemColor = setColorAlpha elemColor alpha;
                   document1 = document(e := (document e)\<lparr>style_background := alphaElemColor\<rparr>)
               in (case parentElement (document1 e) of
                     None \<Rightarrow> document1
                   | Some p \<Rightarrow>
                       let parentColor = style_background (document1 p);
                           alphaParentColor = setColorAlpha parentColor alpha
                       in document1(p := (document1 p)\<lparr>style_background := alphaParentColor\<rparr>))))"

text \<open>
  Colours for the spec's opacity compositor: a parseable colour is the rest of its
  specification (the channels, as written) and its alpha (\<open>None\<close>: unset); anything else
  is the string itself.
\<close>

datatype 'n color = Color string "'n option" | NotAColor string

text \<open>
  Modelled from the spec: \<open>setColorAlpha\<close> (base/util) is not part of this file. The
  spec's opacity compositor takes a colour and an alpha and returns the colour with that
  alpha, \<open>preserving the rest of the color specification\<close>; an input that is not a
  parseable colour is left unchanged.
\<close>

fun spec_setColorAlpha :: "'n color \<Rightarrow> 'n \<Rightarrow> 'n color" where
  "spec_setColorAlpha (Color rest old) alpha = Color rest (Some alpha)"
| "spec_setColorAlpha (NotAColor s) alpha = NotAColor s"

fun rest_of_color :: "'n color \<Rightarrow> string" where
  "rest_of_color (Color rest old) = rest"
| "rest_of_color (NotAColor s) = s"

subsection \<open>Example inputs\<close>

text \<open>
  Values for \<open>LAYOUTS\<close>, a state, props and a two-element DOM (element 1 with parent 0),
  used where a property is instantiated.
\<close>

definition example_LAYOUTS :: "layout_member \<Rightarrow> string" where
  "example_LAYOUTS m =
     (case m of
        HORIZONTAL_FILMSTRIP_VIEW \<Rightarrow> ''horizontal-filmstrip-view''
      | TILE_VIEW \<Rightarrow> ''tile-view''
      | VERTICAL_FILMSTRIP_VIEW \<Rightarrow> ''vertical-filmstrip-view'')"

definition example_state :: "real State" where
  "example_state =
     \<lparr> config_backgroundAlpha = None,
       config_mouseMoveCallbackInterval = 1000,
       toolbox_overflowDrawer = False,
       abstractMapStateToProps = \<lparr> notificationsVisible = True, shouldDisplayTileView = True \<rparr>,
       getCurrentLayout = ''tile-view'',
       getConferenceNameForTitle = ''Room'',
       getIsLobbyVisible = False,
       isPrejoinPageVisible = False,
       shouldDisplayStageFilmstrip = False \<rparr>"

definition example_props :: "real Props" where
  "example_props =
     \<lparr> notificationsVisible = True,
       shouldDisplayTileView = True,
       backgroundAlpha = None,
       layoutClassName = JSString ''tile-view'',
       mouseMoveCallbackInterval = 1000,
       overflowDrawer = False,
       roomName = ''Room'',
       showLobby = False,
       showPrejoin = False,
       showStageFilmstrip = False \<rparr>"

definition example_dom :: "addr \<Rightarrow> real color HTMLElement" where
  "example_dom a =
     (if a = 1 then \<lparr> style_background = Color ''255, 255, 255'' None, parentElement = Some 0 \<rparr>
      else \<lparr> style_background = NotAColor ''not-a-color'', parentElement = None \<rparr>)"

section \<open>Properties\<close>

lemma mounted_js_and:
  "mounted (js_and a x) = (if a then mounted x else [])"
  by (simp add: js_and_def)

lemma mounted_js_or:
  "mounted (js_or a x) = (if a then [] else mounted x)"
  by (simp add: js_or_def)

lemma mounted_render:
  "mounted (render mobile props) =
     [Div, Chat, Div, ConferenceInfo, Notice, Div, LargeVideo]
     @ (if showStageFilmstrip props then [StageFilmstrip] else [])
     @ [MainFilmstrip]
     @ (if showPrejoin props \<or> showLobby props then [] else [Toolbox])
     @ (if notificationsVisible props \<and> overflowDrawer props then [JitsiPortal] else [])
     @ [CalleeInfoContainer]
     @ (if showPrejoin props then [Prejoin] else [])
     @ (if showLobby props then [LobbyScreen] else [])
     @ [ParticipantsPane]"
  by (simp add: render_def mounted_js_and mounted_js_or)

text \<open>
  C2. For every props value and either browser kind, \<open>render\<close> emits the Toolbox if and
  only if both \<open>_showPrejoin\<close> and \<open>_showLobby\<close> are false.
\<close>

theorem toolbox_iff_no_prejoin_no_lobby:
  "Toolbox \<in> set (mounted (render mobile props))
     \<longleftrightarrow> \<not> showPrejoin props \<and> \<not> showLobby props"
  by (simp add: mounted_render)

lemma rendered_js_and:
  "rendered (js_and a x) = (if a then rendered x else [])"
  by (simp add: js_and_def)

lemma rendered_js_or:
  "rendered (js_or a x) = (if a then [] else rendered x)"
  by (simp add: js_or_def)

lemma rendered_notifications:
  "renderNotificationsContainer a \<in> set (rendered (render mobile props)) \<longleftrightarrow>
     notificationsVisible props
     \<and> a = (if overflowDrawer props then Some [(''portal'', JSBool True)] else None)"
  by (auto simp: render_def rendered_js_and rendered_js_or)

lemma rendered_portal:
  "Elem JitsiPortal as cs \<in> set (rendered (render mobile props)) \<longleftrightarrow>
     notificationsVisible props \<and> overflowDrawer props
     \<and> as = [(''className'', JSString ''notification-portal'')]
     \<and> cs = [renderNotificationsContainer (Some [(''portal'', JSBool True)])]"
  by (auto simp: render_def rendered_js_and rendered_js_or)

lemma get_property_not_own:
  "obj key = None \<Longrightarrow>
     get_property obj key =
       (if key \<in> set Object_prototype_names then JSProto key else JSUndefined)"
  by (simp add: get_property_def)

lemma setBackground_element_parent:
  assumes "parentElement (document e) = Some p" and "p \<noteq> e" and "backgroundAlpha props = Some alpha"
  shows "setBackground f props (Some e) document =
           document(e := (document e)\<lparr>style_background := f (style_background (document e)) alpha\<rparr>,
               p := (document p)\<lparr>style_background := f (style_background (document p)) alpha\<rparr>)"
  using assms by (simp add: setBackground_def Let_def)

lemma rest_of_spec_setColorAlpha:
  "rest_of_color (spec_setColorAlpha c alpha) = rest_of_color c"
  by (cases c) simp_all

text \<open>
  C7. For every props value with \<open>_showPrejoin\<close> and \<open>_showLobby\<close> both false, \<open>render\<close>
  emits neither the Prejoin screen nor the Lobby screen, and it emits the Toolbox of the
  main conference.
\<close>

theorem main_conference_when_no_prejoin_no_lobby:
  assumes "\<not> showPrejoin props" and "\<not> showLobby props"
  shows "Toolbox \<in> set (mounted (render mobile props))
         \<and> Prejoin \<notin> set (mounted (render mobile props))
         \<and> LobbyScreen \<notin> set (mounted (render mobile props))"
  using assms by (simp add: mounted_render)

theorem main_conference_when_no_prejoin_no_lobby_witness:
  "\<not> showPrejoin example_props \<and> \<not> showLobby example_props
   \<and> Toolbox \<in> set (mounted (render False example_props))
   \<and> Prejoin \<notin> set (mounted (render False example_props))
   \<and> LobbyScreen \<notin> set (mounted (render False example_props))"
proof -
  have a: "\<not> showPrejoin example_props" and b: "\<not> showLobby example_props"
    by (simp_all add: example_props_def)
  from main_conference_when_no_prejoin_no_lobby [OF a b, of False] a b
  show ?thesis by simp
qed

text \<open>
  C10. If \<open>_setBackground\<close> is called with null, or \<open>_backgroundAlpha\<close> is undefined, the
  DOM is left as it was: no element's background changes, in particular neither the
  element's nor its parent's. So a background changes only when an element is supplied
  and \<open>_backgroundAlpha\<close> is defined.
\<close>

theorem setBackground_unchanged:
  assumes "element = None \<or> backgroundAlpha props = None"
  shows "setBackground f props element document = document"
  using assms by (auto simp: setBackground_def split: option.splits)

theorem setBackground_unchanged_witness:
  "setBackground spec_setColorAlpha (example_props\<lparr>backgroundAlpha := Some (1/2)\<rparr>) None example_dom
     = example_dom
   \<and> setBackground spec_setColorAlpha example_props (Some 1) example_dom = example_dom"
proof -
  have "backgroundAlpha example_props = None"
    by (simp add: example_props_def)
  then show ?thesis
    using setBackground_unchanged [of None "example_props\<lparr>backgroundAlpha := Some (1/2)\<rparr>"
            spec_setColorAlpha example_dom]
          setBackground_unchanged [of "Some 1" example_props spec_setColorAlpha example_dom]
    by simp
qed

text \<open>
  C9. The component is deterministic in its inputs: two states that agree on the session
  flags (prejoin, lobby), on the preferences (overflow drawer, background alpha,
  mouse-move interval, notifications visible), on the layout and on the stage-filmstrip
  input are mapped, in the same browser and with the same \<open>LAYOUTS\<close>, to equal element
  trees, whatever else of the state differs (the room name, the tile-view flag).
\<close>

theorem render_deterministic:
  assumes "isPrejoinPageVisible s1 = isPrejoinPageVisible s2"
    and "getIsLobbyVisible s1 = getIsLobbyVisible s2"
    and "toolbox_overflowDrawer s1 = toolbox_overflowDrawer s2"
    and "config_backgroundAlpha s1 = config_backgroundAlpha s2"
    and "config_mouseMoveCallbackInterval s1 = config_mouseMoveCallbackInterval s2"
    and "notificationsVisible (abstractMapStateToProps s1)
           = notificationsVisible (abstractMapStateToProps s2)"
    and "getCurrentLayout s1 = getCurrentLayout s2"
    and "shouldDisplayStageFilmstrip s1 = shouldDisplayStageFilmstrip s2"
  shows "map_sum id (render mobile) (mapStateToProps LAYOUTS s1)
           = map_sum id (render mobile) (mapStateToProps LAYOUTS s2)"
  using assms by (simp add: mapStateToProps_def render_def)

theorem render_deterministic_witness:
  "example_state \<noteq> example_state\<lparr>getConferenceNameForTitle := ''Other''\<rparr>
   \<and> map_sum id (render False) (mapStateToProps example_LAYOUTS example_state)
       = map_sum id (render False)
           (mapStateToProps example_LAYOUTS
              (example_state\<lparr>getConferenceNameForTitle := ''Other''\<rparr>))"
proof -
  have "example_state \<noteq> example_state\<lparr>getConferenceNameForTitle := ''Other''\<rparr>"
    by (simp add: example_state_def)
  then show ?thesis
    using render_deterministic [of example_state
            "example_state\<lparr>getConferenceNameForTitle := ''Other''\<rparr>" False example_LAYOUTS]
    by simp
qed

text \<open>
  C4. For three pairwise distinct values of the three layouts, the class name looked up
  in \<open>LAYOUT_CLASSNAMES\<close> is a function of the layout: horizontal filmstrip gives
  \<open>horizontal-filmstrip\<close>, tile view gives \<open>tile-view\<close>, vertical filmstrip gives
  \<open>vertical-filmstrip\<close>; equal layouts give equal class names, different layouts give
  different class names, and every class name is a non-empty string.
\<close>

theorem layout_classnames_table:
  assumes "distinct [LAYOUTS HORIZONTAL_FILMSTRIP_VIEW, LAYOUTS TILE_VIEW,
                     LAYOUTS VERTICAL_FILMSTRIP_VIEW]"
  shows "get_property (LAYOUT_CLASSNAMES LAYOUTS) (LAYOUTS HORIZONTAL_FILMSTRIP_VIEW)
           = JSString ''horizontal-filmstrip''
         \<and> get_property (LAYOUT_CLASSNAMES LAYOUTS) (LAYOUTS TILE_VIEW)
           = JSString ''tile-view''
         \<and> get_property (LAYOUT_CLASSNAMES LAYOUTS) (LAYOUTS VERTICAL_FILMSTRIP_VIEW)
           = JSString ''vertical-filmstrip''
         \<and> (\<forall>m m'. m = m' \<longrightarrow>
               get_property (LAYOUT_CLASSNAMES LAYOUTS) (LAYOUTS m)
                 = get_property (LAYOUT_CLASSNAMES LAYOUTS) (LAYOUTS m'))
         \<and> (\<forall>m m'. m \<noteq> m' \<longrightarrow>
               get_property (LAYOUT_CLASSNAMES LAYOUTS) (LAYOUTS m)
                 \<noteq> get_property (LAYOUT_CLASSNAMES LAYOUTS) (LAYOUTS m'))
         \<and> (\<forall>m. \<exists>s. get_property (LAYOUT_CLASSNAMES LAYOUTS) (LAYOUTS m) = JSString s
                 \<and> s \<noteq> [])"
proof -
  have h: "get_property (LAYOUT_CLASSNAMES LAYOUTS) (LAYOUTS HORIZONTAL_FILMSTRIP_VIEW)
             = JSString ''horizontal-filmstrip''"
    using assms by (simp add: LAYOUT_CLASSNAMES_def get_property_def)
  have t: "get_property (LAYOUT_CLASSNAMES LAYOUTS) (LAYOUTS TILE_VIEW)
             = JSString ''tile-view''"
    using assms by (simp add: LAYOUT_CLASSNAMES_def get_property_def)
  have v: "get_property (LAYOUT_CLASSNAMES LAYOUTS) (LAYOUTS VERTICAL_FILMSTRIP_VIEW)
             = JSString ''vertical-filmstrip''"
    by (simp add: LAYOUT_CLASSNAMES_def get_property_def)
  have inj: "get_property (LAYOUT_CLASSNAMES LAYOUTS) (LAYOUTS m)
               \<noteq> get_property (LAYOUT_CLASSNAMES LAYOUTS) (LAYOUTS m')" if "m \<noteq> m'" for m m'
    using that h t v by (cases m; cases m') simp_all
  have str: "\<exists>s. get_property (LAYOUT_CLASSNAMES LAYOUTS) (LAYOUTS m) = JSString s \<and> s \<noteq> []"
    for m
    using h t v by (cases m) simp_all
  from h t v inj str show ?thesis by blast
qed

theorem layout_classnames_table_witness:
  "get_property (LAYOUT_CLASSNAMES example_LAYOUTS) ''horizontal-filmstrip-view''
     = JSString ''horizontal-filmstrip''
   \<and> get_property (LAYOUT_CLASSNAMES example_LAYOUTS) ''tile-view'' = JSString ''tile-view''
   \<and> get_property (LAYOUT_CLASSNAMES example_LAYOUTS) ''vertical-filmstrip-view''
     = JSString ''vertical-filmstrip''"
proof -
  have d: "distinct [example_LAYOUTS HORIZONTAL_FILMSTRIP_VIEW, example_LAYOUTS TILE_VIEW,
                     example_LAYOUTS VERTICAL_FILMSTRIP_VIEW]"
    by (simp add: example_LAYOUTS_def)
  have k: "example_LAYOUTS HORIZONTAL_FILMSTRIP_VIEW = ''horizontal-filmstrip-view''"
    "example_LAYOUTS TILE_VIEW = ''tile-view''"
    "example_LAYOUTS VERTICAL_FILMSTRIP_VIEW = ''vertical-filmstrip-view''"
    by (simp_all add: example_LAYOUTS_def)
  from layout_classnames_table [OF d]
  have "get_property (LAYOUT_CLASSNAMES example_LAYOUTS)
          (example_LAYOUTS HORIZONTAL_FILMSTRIP_VIEW) = JSString ''horizontal-filmstrip''
        \<and> get_property (LAYOUT_CLASSNAMES example_LAYOUTS)
          (example_LAYOUTS TILE_VIEW) = JSString ''tile-view''
        \<and> get_property (LAYOUT_CLASSNAMES example_LAYOUTS)
          (example_LAYOUTS VERTICAL_FILMSTRIP_VIEW) = JSString ''vertical-filmstrip''"
    by blast
  then show ?thesis by (simp only: k)
qed

text \<open>
  C8. When \<open>_setBackground\<close> is given an element that has a parent, and
  \<open>_backgroundAlpha\<close> is defined, the element's background and the parent's background
  each become the alpha adjustment (with that same alpha) of what they were, the rest of
  each colour specification is as before, and nothing else in the DOM changes.
\<close>

theorem setBackground_adjusts_element_and_parent:
  assumes "parentElement (document e) = Some p" and "p \<noteq> e"
    and "backgroundAlpha props = Some alpha"
  shows "style_background (setBackground spec_setColorAlpha props (Some e) document e)
           = spec_setColorAlpha (style_background (document e)) alpha
         \<and> style_background (setBackground spec_setColorAlpha props (Some e) document p)
           = spec_setColorAlpha (style_background (document p)) alpha
         \<and> rest_of_color
             (style_background (setBackground spec_setColorAlpha props (Some e) document e))
           = rest_of_color (style_background (document e))
         \<and> rest_of_color
             (style_background (setBackground spec_setColorAlpha props (Some e) document p))
           = rest_of_color (style_background (document p))
         \<and> (\<forall>x. parentElement (setBackground spec_setColorAlpha props (Some e) document x)
                 = parentElement (document x))
         \<and> (\<forall>x. x \<noteq> e \<and> x \<noteq> p \<longrightarrow>
                 setBackground spec_setColorAlpha props (Some e) document x = document x)"
proof -
  have "setBackground spec_setColorAlpha props (Some e) document =
          document
            (e := (document e)
               \<lparr>style_background := spec_setColorAlpha (style_background (document e)) alpha\<rparr>,
             p := (document p)
               \<lparr>style_background := spec_setColorAlpha (style_background (document p)) alpha\<rparr>)"
    using assms by (rule setBackground_element_parent)
  with assms(2) show ?thesis
    by (simp add: rest_of_spec_setColorAlpha)
qed

theorem setBackground_adjusts_element_and_parent_witness:
  "style_background
     (setBackground spec_setColorAlpha (example_props\<lparr>backgroundAlpha := Some (1/2)\<rparr>)
        (Some 1) example_dom 1)
     = Color ''255, 255, 255'' (Some (1/2))
   \<and> style_background
     (setBackground spec_setColorAlpha (example_props\<lparr>backgroundAlpha := Some (1/2)\<rparr>)
        (Some 1) example_dom 0)
     = NotAColor ''not-a-color''"
proof -
  have a: "parentElement (example_dom 1) = Some 0"
    by (simp add: example_dom_def)
  have b: "(0::nat) \<noteq> 1"
    by simp
  have c: "backgroundAlpha (example_props\<lparr>backgroundAlpha := Some (1/2)\<rparr>) = Some (1/2)"
    by simp
  from a b c
    setBackground_adjusts_element_and_parent
      [of example_dom 1 0 "example_props\<lparr>backgroundAlpha := Some (1/2)\<rparr>" "1/2"]
  show ?thesis by (simp add: example_dom_def)
qed

text \<open>
  C6, as the code has it. \<open>render\<close> emits the CalleeInfoContainer element for every
  props value and either browser kind, also when \<open>_showPrejoin\<close> or \<open>_showLobby\<close> is true.
\<close>

theorem callee_info_always_emitted:
  "CalleeInfoContainer \<in> set (mounted (render mobile props))"
  by (simp add: mounted_render)

text \<open>
  C6 as claimed fails: with \<open>_showPrejoin\<close> true the CalleeInfoContainer is still emitted.
\<close>

theorem callee_info_not_suppressed_counterexample:
  "showPrejoin (example_props\<lparr>showPrejoin := True\<rparr>)
   \<and> CalleeInfoContainer \<in> set (mounted (render False (example_props\<lparr>showPrejoin := True\<rparr>)))"
  by (simp add: mounted_render)

text \<open>
  C1, as the code has it. For every props value with \<open>_showPrejoin\<close> true, \<open>render\<close> emits
  the Prejoin screen and no Toolbox, whatever \<open>_showLobby\<close> is; the Lobby screen is
  emitted exactly when \<open>_showLobby\<close> is true. So with both flags true both screens are
  emitted, Prejoin first in document order.
\<close>

theorem prejoin_emitted_regardless_of_lobby:
  assumes "showPrejoin props"
  shows "Prejoin \<in> set (mounted (render mobile props))
         \<and> Toolbox \<notin> set (mounted (render mobile props))
         \<and> (LobbyScreen \<in> set (mounted (render mobile props)) \<longleftrightarrow> showLobby props)
         \<and> filter (\<lambda>t. t = Prejoin \<or> t = LobbyScreen \<or> t = Toolbox)
               (mounted (render mobile props))
             = (if showLobby props then [Prejoin, LobbyScreen] else [Prejoin])"
  using assms by (simp add: mounted_render)

theorem prejoin_emitted_regardless_of_lobby_witness:
  "filter (\<lambda>t. t = Prejoin \<or> t = LobbyScreen \<or> t = Toolbox)
     (mounted (render False (example_props\<lparr>showPrejoin := True, showLobby := True\<rparr>)))
     = [Prejoin, LobbyScreen]
   \<and> filter (\<lambda>t. t = Prejoin \<or> t = LobbyScreen \<or> t = Toolbox)
     (mounted (render False (example_props\<lparr>showPrejoin := True\<rparr>)))
     = [Prejoin]"
proof -
  have a: "showPrejoin (example_props\<lparr>showPrejoin := True, showLobby := True\<rparr>)"
    and b: "showPrejoin (example_props\<lparr>showPrejoin := True\<rparr>)"
    and c: "showLobby (example_props\<lparr>showPrejoin := True, showLobby := True\<rparr>)"
    and d: "\<not> showLobby (example_props\<lparr>showPrejoin := True\<rparr>)"
    by (simp_all add: example_props_def)
  from prejoin_emitted_regardless_of_lobby [OF a, of False]
       prejoin_emitted_regardless_of_lobby [OF b, of False] c d
  show ?thesis by (simp only: if_True if_False simp_thms)
qed

text \<open>
  C1 as claimed fails: with \<open>_showPrejoin\<close> and \<open>_showLobby\<close> both true the Prejoin screen
  and the Lobby screen are both in the rendered output.
\<close>

theorem prejoin_and_lobby_both_emitted_counterexample:
  "showPrejoin (example_props\<lparr>showPrejoin := True, showLobby := True\<rparr>)
   \<and> showLobby (example_props\<lparr>showPrejoin := True, showLobby := True\<rparr>)
   \<and> Prejoin \<in> set (mounted (render False
         (example_props\<lparr>showPrejoin := True, showLobby := True\<rparr>)))
   \<and> LobbyScreen \<in> set (mounted (render False
         (example_props\<lparr>showPrejoin := True, showLobby := True\<rparr>)))"
  by (simp add: mounted_render)

text \<open>
  C3. For every props value: with \<open>_notificationsVisible\<close> and \<open>_overflowDrawer\<close> both
  true the notifications container is rendered inside the JitsiPortal of class
  \<open>notification-portal\<close> (and not inline); with \<open>_notificationsVisible\<close> true and
  \<open>_overflowDrawer\<close> false it is rendered inline, without a portal; with
  \<open>_notificationsVisible\<close> false no notifications container and no portal is rendered,
  whatever \<open>_overflowDrawer\<close> is.
\<close>

theorem notification_placement:
  "(notificationsVisible props \<and> overflowDrawer props \<longrightarrow>
      Elem JitsiPortal [(''className'', JSString ''notification-portal'')]
        [renderNotificationsContainer (Some [(''portal'', JSBool True)])]
        \<in> set (rendered (render mobile props))
      \<and> renderNotificationsContainer None \<notin> set (rendered (render mobile props)))
   \<and> (notificationsVisible props \<and> \<not> overflowDrawer props \<longrightarrow>
      renderNotificationsContainer None \<in> set (rendered (render mobile props))
      \<and> (\<forall>a. renderNotificationsContainer (Some a) \<notin> set (rendered (render mobile props)))
      \<and> JitsiPortal \<notin> set (mounted (render mobile props)))
   \<and> (\<not> notificationsVisible props \<longrightarrow>
      (\<forall>a. renderNotificationsContainer a \<notin> set (rendered (render mobile props)))
      \<and> JitsiPortal \<notin> set (mounted (render mobile props)))"
  by (simp add: rendered_notifications rendered_portal mounted_render)

theorem notification_placement_witness:
  "Elem JitsiPortal [(''className'', JSString ''notification-portal'')]
     [renderNotificationsContainer (Some [(''portal'', JSBool True)])]
     \<in> set (rendered (render False (example_props\<lparr>overflowDrawer := True\<rparr>)))
   \<and> renderNotificationsContainer None \<in> set (rendered (render False example_props))
   \<and> JitsiPortal \<notin> set (mounted (render False example_props))
   \<and> JitsiPortal \<notin> set (mounted (render False
         (example_props\<lparr>notificationsVisible := False, overflowDrawer := True\<rparr>)))"
proof -
  have a: "notificationsVisible (example_props\<lparr>overflowDrawer := True\<rparr>)
           \<and> overflowDrawer (example_props\<lparr>overflowDrawer := True\<rparr>)"
    and b: "notificationsVisible example_props \<and> \<not> overflowDrawer example_props"
    and c: "\<not> notificationsVisible
              (example_props\<lparr>notificationsVisible := False, overflowDrawer := True\<rparr>)"
    by (simp_all add: example_props_def)
  from a notification_placement [of "example_props\<lparr>overflowDrawer := True\<rparr>" False]
  have 1: "Elem JitsiPortal [(''className'', JSString ''notification-portal'')]
             [renderNotificationsContainer (Some [(''portal'', JSBool True)])]
             \<in> set (rendered (render False (example_props\<lparr>overflowDrawer := True\<rparr>)))"
    by blast
  from b notification_placement [of example_props False]
  have 2: "renderNotificationsContainer None \<in> set (rendered (render False example_props))
           \<and> JitsiPortal \<notin> set (mounted (render False example_props))"
    by blast
  from c notification_placement
           [of "example_props\<lparr>notificationsVisible := False, overflowDrawer := True\<rparr>" False]
  have 3: "JitsiPortal \<notin> set (mounted (render False
             (example_props\<lparr>notificationsVisible := False, overflowDrawer := True\<rparr>)))"
    by blast
  from 1 2 3 show ?thesis by blast
qed

text \<open>
  C5, as the code has it. When the current layout is none of the three keys of
  \<open>LAYOUT_CLASSNAMES\<close>, the lookup raises no error: \<open>_mapStateToProps\<close> returns props whose
  \<open>_layoutClassName\<close> is \<open>undefined\<close> (or, for a name that \<open>Object.prototype\<close> defines, that
  inherited member), and \<open>render\<close> builds the same tree as for \<open>undefined\<close>.
\<close>

theorem unknown_layout_yields_undefined:
  assumes "getCurrentLayout state \<notin>
             {LAYOUTS HORIZONTAL_FILMSTRIP_VIEW, LAYOUTS TILE_VIEW, LAYOUTS VERTICAL_FILMSTRIP_VIEW}"
  shows "\<exists>props. mapStateToProps LAYOUTS state = Inr props
           \<and> layoutClassName props =
               (if getCurrentLayout state \<in> set Object_prototype_names
                then JSProto (getCurrentLayout state) else JSUndefined)
           \<and> render mobile props = render mobile (props\<lparr>layoutClassName := JSUndefined\<rparr>)"
proof -
  have "LAYOUT_CLASSNAMES LAYOUTS (getCurrentLayout state) = None"
    using assms by (simp add: LAYOUT_CLASSNAMES_def)
  then show ?thesis
    by (simp add: mapStateToProps_def get_property_not_own render_def)
qed

theorem unknown_layout_yields_undefined_witness:
  "map_sum id layoutClassName
     (mapStateToProps example_LAYOUTS (example_state\<lparr>getCurrentLayout := ''undefined''\<rparr>))
     = Inr JSUndefined
   \<and> map_sum id layoutClassName
     (mapStateToProps example_LAYOUTS (example_state\<lparr>getCurrentLayout := ''toString''\<rparr>))
     = Inr (JSProto ''toString'')"
proof -
  have a: "getCurrentLayout (example_state\<lparr>getCurrentLayout := ''undefined''\<rparr>) \<notin>
             {example_LAYOUTS HORIZONTAL_FILMSTRIP_VIEW, example_LAYOUTS TILE_VIEW,
              example_LAYOUTS VERTICAL_FILMSTRIP_VIEW}"
    and b: "getCurrentLayout (example_state\<lparr>getCurrentLayout := ''toString''\<rparr>) \<notin>
             {example_LAYOUTS HORIZONTAL_FILMSTRIP_VIEW, example_LAYOUTS TILE_VIEW,
              example_LAYOUTS VERTICAL_FILMSTRIP_VIEW}"
    by (simp_all add: example_LAYOUTS_def)
  from unknown_layout_yields_undefined [OF a, of False]
       unknown_layout_yields_undefined [OF b, of False]
  show ?thesis
    by (auto simp: Object_prototype_names_def)
qed

text \<open>
  C5 as claimed fails: for the layout value \<open>stage-filmstrip-view\<close>, which is none of the
  three keys, \<open>_mapStateToProps\<close> does not fail with \<open>UnknownLayout\<close>; it returns props
  with \<open>_layoutClassName\<close> undefined.
\<close>

theorem unknown_layout_no_error_counterexample:
  "''stage-filmstrip-view'' \<notin>
     {example_LAYOUTS HORIZONTAL_FILMSTRIP_VIEW, example_LAYOUTS TILE_VIEW,
      example_LAYOUTS VERTICAL_FILMSTRIP_VIEW}
   \<and> mapStateToProps example_LAYOUTS
       (example_state\<lparr>getCurrentLayout := ''stage-filmstrip-view''\<rparr>) \<noteq> Inl UnknownLayout
   \<and> map_sum id layoutClassName
       (mapStateToProps example_LAYOUTS
          (example_state\<lparr>getCurrentLayout := ''stage-filmstrip-view''\<rparr>))
       = Inr JSUndefined"
  by (simp add: example_LAYOUTS_def example_state_def mapStateToProps_def
        LAYOUT_CLASSNAMES_def get_property_def Object_prototype_names_def)

end
